theory Spec2Isabelle
  imports Main "HOL-Library.AList"
begin

section \<open>Python values and exceptions\<close>

text \<open>
  The store of \<^verbatim>\<open>key_value_data_store/functions.py\<close> holds Python objects that travel
  through \<^verbatim>\<open>json.dumps\<close> and \<^verbatim>\<open>json.loads\<close>. The values of this development are
  the JSON-shaped Python objects: \<^verbatim>\<open>None\<close>, booleans, unbounded integers, strings,
  lists and string-keyed dictionaries. A dictionary is an association list in insertion
  order (the order \<^verbatim>\<open>json.dumps\<close> writes); a Python \<^verbatim>\<open>dict\<close> never holds a key
  twice, which is the predicate \<open>wf_py\<close> below. A string is a list of 8-bit characters,
  read as the code points 0 to 255. Floats, dictionaries with keys that are not strings
  and code points above 255 are outside the development.

  \<^verbatim>\<open>is_valid\<close> looks at the type and the shallow size of a value only, so a dictionary
  that passes it can hold anything. \<open>PyObject h n\<close> is such a member that
  \<^verbatim>\<open>json.dumps\<close> raises on: an object of a class it cannot encode (a set, a frozenset, an
  instance of \<^verbatim>\<open>object\<close>), or a reference back to a container that holds it. It is no
  string, dictionary, list or number, \<^verbatim>\<open>int\<close> raises on it, \<open>h\<close> tells whether it can be
  hashed, and \<open>n\<close> tells one such object from another. The limits of the interpreter
  (recursion depth, the bound on the digits of an integer converted from or to a string)
  are not modelled.
\<close>

datatype pyval =
    PyNone
  | PyBool bool
  | PyInt int
  | PyStr string
  | PyList "pyval list"
  | PyDict "(string \<times> pyval) list"
  | PyObject bool nat

type_synonym pydict = "(string \<times> pyval) list"
type_synonym bytes = "char list"

text \<open>
  Every exception the modelled code can raise. The first seven are the \<^verbatim>\<open>ValueError\<close>s
  of \<^verbatim>\<open>functions.py\<close>, one constructor for each message, carrying what the f-string
  formats into it. \<open>DataOutOfRange\<close> is the \<^verbatim>\<open>ValueError\<close> of \<^verbatim>\<open>mmap.write\<close>, and
  \<open>NotSerializable\<close> is what \<^verbatim>\<open>json.dumps\<close> raises (\<^verbatim>\<open>TypeError\<close> for an object it cannot
  encode, \<^verbatim>\<open>ValueError\<close> for a circular reference).
  \<open>Unmodelled\<close> marks an input that leaves the fragment described above, and
  \<open>OutOfFuel\<close> a parser run that used up its step bound.
\<close>

datatype error =
    KeyMustBeStr pyval
  | ValueMustBeDict pyval
  | KeyAlreadyPresent pyval
  | TtlMustBeInteger pyval
  | SizeConfigNotMet int int
  | KeyNotInDatastore pyval
  | TtlExpired pyval
  | DataOutOfRange
  | NotSerializable
  | TypeError
  | IndexError
  | UnicodeDecodeError
  | UnicodeEncodeError
  | JSONDecodeError
  | MmapError
  | Unmodelled
  | OutOfFuel

section \<open>Configuration\<close>

text \<open>
  The module \<^verbatim>\<open>config\<close> is not part of the sources at hand, so its three constants are
  parameters. \<open>getsizeof\<close> stands for \<^verbatim>\<open>sys.getsizeof\<close> of the running interpreter,
  whose result on a dictionary depends on the platform.
\<close>

record config =
  MAX_KEY_LEN :: int
  MAX_VALUE_SIZE :: int
  MAX_LOCAL_STORAGE_SIZE :: nat
  getsizeof :: "pyval \<Rightarrow> int"

section \<open>Validation\<close>

text \<open>
  \<^verbatim>\<open>is_valid(val, val_type)\<close>. For a \<^verbatim>\<open>val_type\<close> other than \<^verbatim>\<open>"key"\<close> and
  \<^verbatim>\<open>"value"\<close> the Python function falls off its end and returns \<^verbatim>\<open>None\<close>, which is
  false where \<^verbatim>\<open>create\<close> tests it.
\<close>

definition is_valid :: "config \<Rightarrow> pyval \<Rightarrow> string \<Rightarrow> error + bool" where
  "is_valid cfg val val_type =
     (if val_type = ''key'' then
        (case val of
           PyStr s \<Rightarrow> Inr (int (length s) \<le> MAX_KEY_LEN cfg)
         | _ \<Rightarrow> Inl (KeyMustBeStr val))
      else if val_type = ''value'' then
        (case val of
           PyDict d \<Rightarrow> Inr (getsizeof cfg val \<le> MAX_VALUE_SIZE cfg)
         | _ \<Rightarrow> Inl (ValueMustBeDict val))
      else Inr False)"

section \<open>The value object\<close>

record DataStoreVO =
  vo_value :: pyval
  vo_ttl :: pyval
  vo_created_at :: pyval

text \<open>
  Python's arithmetic takes \<^verbatim>\<open>bool\<close> as the integers 0 and 1. Any other operand makes
  \<^verbatim>\<open>curr_ts - created_at\<close>, \<^verbatim>\<open>ttl * 1000\<close> or the comparison of the two raise
  \<^verbatim>\<open>TypeError\<close>.
\<close>

fun py_number :: "pyval \<Rightarrow> int option" where
  "py_number (PyInt i) = Some i"
| "py_number (PyBool b) = Some (if b then 1 else 0)"
| "py_number _ = None"

text \<open>
  \<^verbatim>\<open>DataStoreVO.is_expired\<close>. The clock reading \<^verbatim>\<open>int(time.time() * 1000)\<close> is the
  argument \<open>curr_ts\<close>.
\<close>

definition is_expired :: "int \<Rightarrow> DataStoreVO \<Rightarrow> error + bool" where
  "is_expired curr_ts vo =
     (if vo_ttl vo = PyNone then Inr False
      else (case (py_number (vo_created_at vo), py_number (vo_ttl vo)) of
              (Some created_at, Some ttl) \<Rightarrow> Inr (curr_ts - created_at > ttl * 1000)
            | _ \<Rightarrow> Inl TypeError))"

section \<open>The JSON text of a value\<close>

text \<open>
  \<^verbatim>\<open>json.dumps\<close> with its default arguments: the separators are \<^verbatim>\<open>", "\<close> and
  \<^verbatim>\<open>": "\<close>, dictionaries are written in insertion order, and \<^verbatim>\<open>ensure_ascii\<close>
  escapes every character outside the range from space to tilde. \<open>iterencode\<close> is the
  text the encoder produces for a value all of whose members it can encode
  (\<open>serializable\<close>); on any other value \<^verbatim>\<open>json.dumps\<close> raises and returns no text.
\<close>

definition digit_char :: "nat \<Rightarrow> char" where
  "digit_char n = char_of (48 + n)"

fun show_nat :: "nat \<Rightarrow> string" where
  "show_nat n = (if n < 10 then [digit_char n] else show_nat (n div 10) @ [digit_char (n mod 10)])"

definition show_int :: "int \<Rightarrow> string" where
  "show_int i = (if i < 0 then CHR ''-'' # show_nat (nat (- i)) else show_nat (nat i))"

definition hexdigit :: "nat \<Rightarrow> char" where
  "hexdigit n = (if n < 10 then char_of (48 + n) else char_of (87 + n))"

definition escape_char :: "char \<Rightarrow> string" where
  "escape_char c =
     (if c = CHR 0x22 then [CHR 0x5C, CHR 0x22]
      else if c = CHR 0x5C then [CHR 0x5C, CHR 0x5C]
      else if c = CHR 0x0A then [CHR 0x5C, CHR ''n'']
      else if c = CHR 0x0D then [CHR 0x5C, CHR ''r'']
      else if c = CHR 0x09 then [CHR 0x5C, CHR ''t'']
      else if c = CHR 0x08 then [CHR 0x5C, CHR ''b'']
      else if c = CHR 0x0C then [CHR 0x5C, CHR ''f'']
      else if 32 \<le> (of_char c :: nat) \<and> (of_char c :: nat) \<le> 126 then [c]
      else [CHR 0x5C, CHR ''u'', CHR ''0'', CHR ''0'',
            hexdigit (of_char c div 16), hexdigit (of_char c mod 16)])"

definition py_encode_basestring_ascii :: "string \<Rightarrow> string" where
  "py_encode_basestring_ascii s = CHR 0x22 # concat (map escape_char s) @ [CHR 0x22]"

fun iterencode :: "pyval \<Rightarrow> string"
  and iterencode_list :: "pyval list \<Rightarrow> string"
  and iterencode_dict :: "pydict \<Rightarrow> string"
where
  "iterencode PyNone = ''null''"
| "iterencode (PyBool b) = (if b then ''true'' else ''false'')"
| "iterencode (PyInt i) = show_int i"
| "iterencode (PyStr s) = py_encode_basestring_ascii s"
| "iterencode (PyList xs) = ''['' @ iterencode_list xs @ '']''"
| "iterencode (PyDict kvs) = ''{'' @ iterencode_dict kvs @ ''}''"
| "iterencode_list [] = []"
| "iterencode_list (x # xs) = iterencode x @ (if xs = [] then [] else '', '' @ iterencode_list xs)"
| "iterencode_dict [] = []"
| "iterencode_dict ((k, v) # kvs) =
     py_encode_basestring_ascii k @ '': '' @ iterencode v
       @ (if kvs = [] then [] else '', '' @ iterencode_dict kvs)"
| "iterencode (PyObject h n) = []"

fun serializable :: "pyval \<Rightarrow> bool"
  and serializable_list :: "pyval list \<Rightarrow> bool"
  and serializable_dict :: "pydict \<Rightarrow> bool"
where
  "serializable (PyObject h n) = False"
| "serializable (PyList xs) = serializable_list xs"
| "serializable (PyDict kvs) = serializable_dict kvs"
| "serializable PyNone = True"
| "serializable (PyBool b) = True"
| "serializable (PyInt i) = True"
| "serializable (PyStr s) = True"
| "serializable_list [] = True"
| "serializable_list (x # xs) = (serializable x \<and> serializable_list xs)"
| "serializable_dict [] = True"
| "serializable_dict ((k, v) # kvs) = (serializable v \<and> serializable_dict kvs)"

definition json_dumps :: "pyval \<Rightarrow> error + string" where
  "json_dumps v = (if serializable v then Inr (iterencode v) else Inl NotSerializable)"

section \<open>Reading JSON text\<close>

text \<open>
  \<^verbatim>\<open>json.loads\<close> with its default arguments, after the scanner of \<^verbatim>\<open>json.scanner\<close>
  and \<^verbatim>\<open>json.decoder\<close>. A number with a fraction or an exponent, \<^verbatim>\<open>NaN\<close> and the
  infinities are floats, and an escape \<^verbatim>\<open>\uXXXX\<close> from 0100 on names a code point
  above 255: both give \<open>Unmodelled\<close>.
\<close>

definition is_ws :: "char \<Rightarrow> bool" where
  "is_ws c = (c = CHR '' '' \<or> c = CHR 0x09 \<or> c = CHR 0x0A \<or> c = CHR 0x0D)"

definition skip_ws :: "string \<Rightarrow> string" where
  "skip_ws s = dropWhile is_ws s"

definition is_digit :: "char \<Rightarrow> bool" where
  "is_digit c = (48 \<le> (of_char c :: nat) \<and> (of_char c :: nat) \<le> 57)"

definition digit_val :: "char \<Rightarrow> nat" where
  "digit_val c = of_char c - 48"

definition read_nat :: "string \<Rightarrow> nat" where
  "read_nat ds = foldl (\<lambda>a c. 10 * a + digit_val c) 0 ds"

definition hexval :: "char \<Rightarrow> nat option" where
  "hexval c =
     (let n = (of_char c :: nat) in
      if 48 \<le> n \<and> n \<le> 57 then Some (n - 48)
      else if 97 \<le> n \<and> n \<le> 102 then Some (n - 87)
      else if 65 \<le> n \<and> n \<le> 70 then Some (n - 55)
      else None)"

definition decode_uXXXX :: "char \<Rightarrow> char \<Rightarrow> char \<Rightarrow> char \<Rightarrow> nat option" where
  "decode_uXXXX h1 h2 h3 h4 =
     (case (hexval h1, hexval h2, hexval h3, hexval h4) of
        (Some a, Some b, Some c, Some d) \<Rightarrow> Some (((a * 16 + b) * 16 + c) * 16 + d)
      | _ \<Rightarrow> None)"

definition BACKSLASH :: "char \<Rightarrow> char option" where
  "BACKSLASH e =
     (if e = CHR 0x22 then Some (CHR 0x22)
      else if e = CHR 0x5C then Some (CHR 0x5C)
      else if e = CHR ''/'' then Some (CHR ''/'')
      else if e = CHR ''b'' then Some (CHR 0x08)
      else if e = CHR ''f'' then Some (CHR 0x0C)
      else if e = CHR ''n'' then Some (CHR 0x0A)
      else if e = CHR ''r'' then Some (CHR 0x0D)
      else if e = CHR ''t'' then Some (CHR 0x09)
      else None)"

definition cons_char :: "char \<Rightarrow> error + (string \<times> string) \<Rightarrow> error + (string \<times> string)" where
  "cons_char c r = (case r of Inl e \<Rightarrow> Inl e | Inr (s, rest) \<Rightarrow> Inr (c # s, rest))"

text \<open>
  \<^verbatim>\<open>scanstring\<close> in strict mode, started behind the opening quote: it returns the
  decoded string and the text behind the closing quote.
\<close>

fun scanstring :: "string \<Rightarrow> error + (string \<times> string)" where
  "scanstring [] = Inl JSONDecodeError"
| "scanstring (c # cs) =
     (if c = CHR 0x22 then Inr ([], cs)
      else if c = CHR 0x5C then
        (case cs of
           [] \<Rightarrow> Inl JSONDecodeError
         | e # cs1 \<Rightarrow>
             if e = CHR ''u'' then
               (case cs1 of
                  h1 # h2 # h3 # h4 # cs2 \<Rightarrow>
                    (case decode_uXXXX h1 h2 h3 h4 of
                       None \<Rightarrow> Inl JSONDecodeError
                     | Some u \<Rightarrow>
                         if u < 256 then cons_char (char_of u) (scanstring cs2)
                         else Inl Unmodelled)
                | _ \<Rightarrow> Inl JSONDecodeError)
             else
               (case BACKSLASH e of
                  None \<Rightarrow> Inl JSONDecodeError
                | Some ch \<Rightarrow> cons_char ch (scanstring cs1)))
      else if (of_char c :: nat) < 32 then Inl JSONDecodeError
      else cons_char c (scanstring cs))"

text \<open>
  The number pattern \<^verbatim>\<open>(-?(?:0|[1-9]\d*))(\.\d+)?([eE][-+]?\d+)?\<close>: \<open>None\<close> when the
  text does not start with a number.
\<close>

definition int_part :: "string \<Rightarrow> (string \<times> string) option" where
  "int_part s =
     (case s of
        [] \<Rightarrow> None
      | c # cs \<Rightarrow>
          if c = CHR ''0'' then Some ([c], cs)
          else if is_digit c then Some (c # takeWhile is_digit cs, dropWhile is_digit cs)
          else None)"

definition has_frac :: "string \<Rightarrow> bool" where
  "has_frac r = (case r of c # d # _ \<Rightarrow> c = CHR ''.'' \<and> is_digit d | _ \<Rightarrow> False)"

definition has_exp :: "string \<Rightarrow> bool" where
  "has_exp r =
     (case r of
        [] \<Rightarrow> False
      | c # r1 \<Rightarrow>
          (c = CHR ''e'' \<or> c = CHR ''E'') \<and>
          (case r1 of
             [] \<Rightarrow> False
           | d # r2 \<Rightarrow>
               is_digit d \<or>
               ((d = CHR ''+'' \<or> d = CHR ''-'') \<and> (case r2 of [] \<Rightarrow> False | x # _ \<Rightarrow> is_digit x))))"

definition match_number :: "string \<Rightarrow> (error + (pyval \<times> string)) option" where
  "match_number s =
     (let neg = (case s of [] \<Rightarrow> False | c # _ \<Rightarrow> c = CHR ''-'');
          t = (if neg then tl s else s)
      in case int_part t of
           None \<Rightarrow> None
         | Some (ds, r) \<Rightarrow>
             if has_frac r \<or> has_exp r then Some (Inl Unmodelled)
             else Some (Inr (PyInt (if neg then - int (read_nat ds) else int (read_nat ds)), r)))"

text \<open>What \<^verbatim>\<open>scan_once\<close> does where the text opens no string, object or array.\<close>

definition scan_atom :: "string \<Rightarrow> error + (pyval \<times> string)" where
  "scan_atom s =
     (if take 4 s = ''null'' then Inr (PyNone, drop 4 s)
      else if take 4 s = ''true'' then Inr (PyBool True, drop 4 s)
      else if take 5 s = ''false'' then Inr (PyBool False, drop 5 s)
      else (case match_number s of
              Some r \<Rightarrow> r
            | None \<Rightarrow>
                if take 3 s = ''NaN'' \<or> take 8 s = ''Infinity'' \<or> take 9 s = ''-Infinity''
                then Inl Unmodelled
                else Inl JSONDecodeError))"

text \<open>\<^verbatim>\<open>dict(pairs)\<close>: a key read twice keeps its first place and its last value.\<close>

definition dict_of_pairs :: "(string \<times> pyval) list \<Rightarrow> pydict" where
  "dict_of_pairs ps = foldl (\<lambda>d (k, v). AList.update k v d) [] ps"

text \<open>
  \<^verbatim>\<open>scan_once\<close>, and the loops of \<^verbatim>\<open>JSONArray\<close> and \<^verbatim>\<open>JSONObject\<close>. The first
  argument bounds the number of calls; \<open>json_loads\<close> starts with more than the length of
  the text. \<open>array_items\<close> starts at the first item, \<open>object_pairs\<close> behind the quote
  that opens the first key.
\<close>

fun scan_once :: "nat \<Rightarrow> string \<Rightarrow> error + (pyval \<times> string)"
  and array_items :: "nat \<Rightarrow> string \<Rightarrow> error + (pyval list \<times> string)"
  and object_pairs :: "nat \<Rightarrow> string \<Rightarrow> error + ((string \<times> pyval) list \<times> string)"
where
  "scan_once 0 s = Inl OutOfFuel"
| "scan_once (Suc n) s =
     (case s of
        [] \<Rightarrow> Inl JSONDecodeError
      | c # cs \<Rightarrow>
          if c = CHR 0x22 then
            (case scanstring cs of
               Inl e \<Rightarrow> Inl e
             | Inr (str, r) \<Rightarrow> Inr (PyStr str, r))
          else if c = CHR ''{'' then
            (case skip_ws cs of
               [] \<Rightarrow> Inl JSONDecodeError
             | d # r \<Rightarrow>
                 if d = CHR ''}'' then Inr (PyDict [], r)
                 else if d \<noteq> CHR 0x22 then Inl JSONDecodeError
                 else (case object_pairs n r of
                         Inl e \<Rightarrow> Inl e
                       | Inr (ps, r1) \<Rightarrow> Inr (PyDict (dict_of_pairs ps), r1)))
          else if c = CHR ''['' then
            (case skip_ws cs of
               [] \<Rightarrow> Inl JSONDecodeError
             | d # r \<Rightarrow>
                 if d = CHR '']'' then Inr (PyList [], r)
                 else (case array_items n (d # r) of
                         Inl e \<Rightarrow> Inl e
                       | Inr (xs, r1) \<Rightarrow> Inr (PyList xs, r1)))
          else scan_atom s)"
| "array_items 0 s = Inl OutOfFuel"
| "array_items (Suc n) s =
     (case scan_once n s of
        Inl e \<Rightarrow> Inl e
      | Inr (x, r) \<Rightarrow>
          (case skip_ws r of
             [] \<Rightarrow> Inl JSONDecodeError
           | d # r1 \<Rightarrow>
               if d = CHR '']'' then Inr ([x], r1)
               else if d \<noteq> CHR '','' then Inl JSONDecodeError
               else (case array_items n (skip_ws r1) of
                       Inl e \<Rightarrow> Inl e
                     | Inr (xs, r2) \<Rightarrow> Inr (x # xs, r2))))"
| "object_pairs 0 s = Inl OutOfFuel"
| "object_pairs (Suc n) s =
     (case scanstring s of
        Inl e \<Rightarrow> Inl e
      | Inr (k, r) \<Rightarrow>
          (case skip_ws r of
             [] \<Rightarrow> Inl JSONDecodeError
           | c # r1 \<Rightarrow>
               if c \<noteq> CHR '':'' then Inl JSONDecodeError
               else (case scan_once n (skip_ws r1) of
                       Inl e \<Rightarrow> Inl e
                     | Inr (v, r2) \<Rightarrow>
                         (case skip_ws r2 of
                            [] \<Rightarrow> Inl JSONDecodeError
                          | d # r3 \<Rightarrow>
                              if d = CHR ''}'' then Inr ([(k, v)], r3)
                              else if d \<noteq> CHR '','' then Inl JSONDecodeError
                              else (case skip_ws r3 of
                                      [] \<Rightarrow> Inl JSONDecodeError
                                    | q # r4 \<Rightarrow>
                                        if q \<noteq> CHR 0x22 then Inl JSONDecodeError
                                        else (case object_pairs n r4 of
                                                Inl e \<Rightarrow> Inl e
                                              | Inr (ps, r5) \<Rightarrow> Inr ((k, v) # ps, r5)))))))"

text \<open>
  \<^verbatim>\<open>JSONDecoder.decode\<close>: white space, one value, white space, and nothing more.
\<close>

definition json_loads :: "string \<Rightarrow> error + pyval" where
  "json_loads s =
     (let s0 = skip_ws s
      in case scan_once (Suc (length s0)) s0 of
           Inl e \<Rightarrow> Inl e
         | Inr (v, r) \<Rightarrow> if skip_ws r = [] then Inr v else Inl JSONDecodeError)"

section \<open>The mapped region\<close>

text \<open>
  The \<^verbatim>\<open>mmap\<close> object: the bytes of the mapping and the cursor that \<^verbatim>\<open>seek\<close>,
  \<^verbatim>\<open>tell\<close> and \<^verbatim>\<open>write\<close> use. The mapping is shared with the file, so \<open>buf\<close> is also
  the content of the backing file. After \<^verbatim>\<open>resize\<close> the file is as long as the
  mapping, which is what \<^verbatim>\<open>size()\<close> returns.
\<close>

record mmap_obj =
  buf :: bytes
  pos :: nat

definition mmap_seek :: "mmap_obj \<Rightarrow> nat \<Rightarrow> mmap_obj" where
  "mmap_seek m p = m\<lparr>pos := p\<rparr>"

definition mmap_tell :: "mmap_obj \<Rightarrow> nat" where
  "mmap_tell m = pos m"

definition mmap_size :: "mmap_obj \<Rightarrow> nat" where
  "mmap_size m = length (buf m)"

text \<open>
  \<^verbatim>\<open>mmap.write(bytes)\<close> raises \<^verbatim>\<open>ValueError("data out of range")\<close> and writes nothing
  when the bytes do not fit behind the cursor.
\<close>

definition mmap_write :: "mmap_obj \<Rightarrow> bytes \<Rightarrow> error + mmap_obj" where
  "mmap_write m bs =
     (if pos m > length (buf m) \<or> length (buf m) - pos m < length bs then Inl DataOutOfRange
      else Inr (m\<lparr>buf := take (pos m) (buf m) @ bs @ drop (pos m + length bs) (buf m),
                 pos := pos m + length bs\<rparr>))"

text \<open>The slice assignment \<^verbatim>\<open>m[i:] = bs\<close>, which asks for a slice of the same length.\<close>

definition mmap_set_tail :: "mmap_obj \<Rightarrow> nat \<Rightarrow> bytes \<Rightarrow> error + mmap_obj" where
  "mmap_set_tail m i bs =
     (if length bs \<noteq> length (buf m) - i then Inl IndexError
      else Inr (m\<lparr>buf := take i (buf m) @ bs\<rparr>))"

definition is_ascii :: "char \<Rightarrow> bool" where
  "is_ascii c = ((of_char c :: nat) < 128)"

definition encode_ascii :: "string \<Rightarrow> error + bytes" where
  "encode_ascii s = (if list_all is_ascii s then Inr s else Inl UnicodeEncodeError)"

definition decode_ascii :: "bytes \<Rightarrow> error + string" where
  "decode_ascii bs = (if list_all is_ascii bs then Inr bs else Inl UnicodeDecodeError)"

definition rstrip_nul :: "string \<Rightarrow> string" where
  "rstrip_nul s = rev (dropWhile (\<lambda>c. c = CHR 0x00) (rev s))"

section \<open>Dictionary operations\<close>

fun hashable :: "pyval \<Rightarrow> bool" where
  "hashable (PyList _) = False"
| "hashable (PyDict _) = False"
| "hashable (PyObject h _) = h"
| "hashable _ = True"

text \<open>
  \<^verbatim>\<open>d.get(key)\<close>, and with it \<^verbatim>\<open>key in d\<close>. A list or a dictionary cannot be hashed
  (\<^verbatim>\<open>TypeError\<close>); a key that is no string equals none of the string keys.
\<close>

definition dict_lookup :: "pydict \<Rightarrow> pyval \<Rightarrow> error + pyval option" where
  "dict_lookup d key =
     (if \<not> hashable key then Inl TypeError
      else Inr (case key of PyStr k \<Rightarrow> map_of d k | _ \<Rightarrow> None))"

definition dict_contains :: "pydict \<Rightarrow> pyval \<Rightarrow> error + bool" where
  "dict_contains d key =
     (case dict_lookup d key of Inl e \<Rightarrow> Inl e | Inr r \<Rightarrow> Inr (r \<noteq> None))"

text \<open>
  \<^verbatim>\<open>d[key] = v\<close>: a new key goes to the end. \<^verbatim>\<open>create\<close> gets here only with a string,
  \<^verbatim>\<open>is_valid\<close> having raised on any other key.
\<close>

definition dict_setitem :: "pydict \<Rightarrow> pyval \<Rightarrow> pyval \<Rightarrow> pydict" where
  "dict_setitem d key v = (case key of PyStr k \<Rightarrow> AList.update k v d | _ \<Rightarrow> d)"

text \<open>\<^verbatim>\<open>del d[key]\<close> and \<^verbatim>\<open>d.pop(key)\<close>, both called for a key that is present.\<close>

definition dict_delitem :: "pydict \<Rightarrow> pyval \<Rightarrow> pydict" where
  "dict_delitem d key = (case key of PyStr k \<Rightarrow> AList.delete k d | _ \<Rightarrow> d)"

section \<open>The builtin int\<close>

text \<open>
  \<^verbatim>\<open>int(x)\<close> in base ten, \<open>None\<close> where it raises: white space around the number, a
  sign, and digits with single underscores between them. The white space \<^verbatim>\<open>int\<close> strips
  is tab, line feed, vertical tab, form feed, carriage return and space, and the two
  Unicode spaces below 256, NEL (133) and NBSP (160), which it first turns into spaces.
  The separators 28 to 31 are white space for \<^verbatim>\<open>str.strip\<close> but not for \<^verbatim>\<open>int\<close>.
\<close>

definition py_isspace :: "char \<Rightarrow> bool" where
  "py_isspace c =
     (let n = (of_char c :: nat)
      in (9 \<le> n \<and> n \<le> 13) \<or> n = 32 \<or> n = 133 \<or> n = 160)"

definition py_strip :: "string \<Rightarrow> string" where
  "py_strip s = rev (dropWhile py_isspace (rev (dropWhile py_isspace s)))"

fun int_digits :: "nat \<Rightarrow> string \<Rightarrow> nat option" where
  "int_digits acc [] = Some acc"
| "int_digits acc (c # cs) =
     (if is_digit c then int_digits (10 * acc + digit_val c) cs
      else if c = CHR ''_'' then
        (case cs of
           [] \<Rightarrow> None
         | d # ds \<Rightarrow> if is_digit d then int_digits (10 * acc + digit_val d) ds else None)
      else None)"

definition int_of_str :: "string \<Rightarrow> int option" where
  "int_of_str s =
     (let t = py_strip s;
          neg = (case t of [] \<Rightarrow> False | c # _ \<Rightarrow> c = CHR ''-'');
          u = (case t of [] \<Rightarrow> [] | c # r \<Rightarrow> if c = CHR ''-'' \<or> c = CHR ''+'' then r else t)
      in case u of
           [] \<Rightarrow> None
         | c # cs \<Rightarrow>
             if is_digit c
             then map_option (\<lambda>n. if neg then - int n else int n) (int_digits (digit_val c) cs)
             else None)"

fun py_int :: "pyval \<Rightarrow> int option" where
  "py_int (PyInt i) = Some i"
| "py_int (PyBool b) = Some (if b then 1 else 0)"
| "py_int (PyStr s) = int_of_str s"
| "py_int _ = None"

section \<open>The store\<close>

text \<open>
  A \<^verbatim>\<open>DataStore\<close> object: the dictionary \<^verbatim>\<open>__data\<close> and the mapping \<^verbatim>\<open>__mmap\<close>. The
  lock is taken and released inside every method, so with one thread it changes
  nothing. A method returns what it returns or raises, and the store it leaves.
\<close>

record DataStore =
  data :: pydict
  mmap :: mmap_obj

text \<open>
  \<^verbatim>\<open>DataStore.flush\<close>. The cursor is set to 0 first; an exception of \<^verbatim>\<open>json.dumps\<close> or
  of \<^verbatim>\<open>mmap.write\<close> leaves the bytes of the region as they were.
\<close>

definition flush :: "DataStore \<Rightarrow> (error + unit) \<times> DataStore" where
  "flush s =
     (let m0 = mmap_seek (mmap s) 0
      in case json_dumps (PyDict (data s)) of
           Inl e \<Rightarrow> (Inl e, s\<lparr>mmap := m0\<rparr>)
         | Inr text \<Rightarrow>
             (case encode_ascii text of
                Inl e \<Rightarrow> (Inl e, s\<lparr>mmap := m0\<rparr>)
              | Inr data_string \<Rightarrow>
                  (case mmap_write m0 data_string of
                     Inl e \<Rightarrow> (Inl e, s\<lparr>mmap := m0\<rparr>)
                   | Inr m1 \<Rightarrow>
                       (let empty_space_bytes = mmap_size m1 - mmap_tell m1
                        in case mmap_set_tail m1 (mmap_tell m1)
                                  (replicate empty_space_bytes (CHR 0x00)) of
                             Inl e \<Rightarrow> (Inl e, s\<lparr>mmap := m1\<rparr>)
                           | Inr m2 \<Rightarrow> (Inr (), s\<lparr>mmap := m2\<rparr>)))))"

text \<open>
  The ttl that \<^verbatim>\<open>create\<close> stores: \<^verbatim>\<open>None\<close> stays, any other argument goes through
  \<^verbatim>\<open>int\<close>, and the bare \<^verbatim>\<open>except\<close> turns every failure of \<^verbatim>\<open>int(ttl)\<close> into the
  \<^verbatim>\<open>ValueError\<close> (here \<open>None\<close>).
\<close>

definition coerce_ttl :: "pyval \<Rightarrow> pyval option" where
  "coerce_ttl ttl = (if ttl = PyNone then Some PyNone else map_option PyInt (py_int ttl))"

text \<open>
  \<^verbatim>\<open>DataStore.create\<close>; \<open>now\<close> is the clock reading \<^verbatim>\<open>int(time.time() * 1000)\<close>.
\<close>

definition create :: "config \<Rightarrow> int \<Rightarrow> pyval \<Rightarrow> pyval \<Rightarrow> pyval \<Rightarrow> DataStore \<Rightarrow> (error + unit) \<times> DataStore" where
  "create cfg now key val ttl s =
     (case dict_contains (data s) key of
        Inl e \<Rightarrow> (Inl e, s)
      | Inr True \<Rightarrow> (Inl (KeyAlreadyPresent key), s)
      | Inr False \<Rightarrow>
          (case (case is_valid cfg key ''key'' of
                   Inl e \<Rightarrow> Inl e
                 | Inr False \<Rightarrow> Inr False
                 | Inr True \<Rightarrow> is_valid cfg val ''value'') of
             Inl e \<Rightarrow> (Inl e, s)
           | Inr False \<Rightarrow> (Inl (SizeConfigNotMet (MAX_KEY_LEN cfg) (MAX_VALUE_SIZE cfg)), s)
           | Inr True \<Rightarrow>
               (case coerce_ttl ttl of
                  None \<Rightarrow> (Inl (TtlMustBeInteger ttl), s)
                | Some ttl1 \<Rightarrow>
                    (let value_arr = PyList [val, PyInt now, ttl1]
                     in flush (s\<lparr>data := dict_setitem (data s) key value_arr\<rparr>)))))"

text \<open>\<^verbatim>\<open>DataStore.delete\<close>.\<close>

definition delete :: "pyval \<Rightarrow> DataStore \<Rightarrow> (error + unit) \<times> DataStore" where
  "delete key s =
     (case dict_contains (data s) key of
        Inl e \<Rightarrow> (Inl e, s)
      | Inr False \<Rightarrow> (Inr (), s)
      | Inr True \<Rightarrow> flush (s\<lparr>data := dict_delitem (data s) key\<rparr>))"

text \<open>
  The call \<^verbatim>\<open>DataStoreVO(*entry)\<close>: the entry is iterated (a list gives its items, a
  string its characters, a dictionary its keys), the first three items are the value, the
  creation time and the ttl, and further items are taken by \<^verbatim>\<open>*args\<close>. Whether a
  \<open>PyObject\<close> can be iterated is not modelled; no method stores one as an entry.
\<close>

definition star_args :: "pyval \<Rightarrow> error + pyval list" where
  "star_args entry =
     (case entry of
        PyList xs \<Rightarrow> Inr xs
      | PyStr cs \<Rightarrow> Inr (map (\<lambda>c. PyStr [c]) cs)
      | PyDict d \<Rightarrow> Inr (map (\<lambda>kv. PyStr (fst kv)) d)
      | PyObject h n \<Rightarrow> Inl Unmodelled
      | _ \<Rightarrow> Inl TypeError)"

definition DataStoreVO_init :: "pyval list \<Rightarrow> error + DataStoreVO" where
  "DataStoreVO_init args =
     (case args of
        v # created_at # ttl # _ \<Rightarrow> Inr \<lparr>vo_value = v, vo_ttl = ttl, vo_created_at = created_at\<rparr>
      | _ \<Rightarrow> Inl TypeError)"

text \<open>
  \<^verbatim>\<open>DataStore.get\<close>; \<open>now\<close> is the clock reading inside \<^verbatim>\<open>is_expired\<close>. An exception
  of \<^verbatim>\<open>flush\<close> leaves through \<^verbatim>\<open>get\<close> before the expiry error is raised.
\<close>

definition get :: "int \<Rightarrow> pyval \<Rightarrow> DataStore \<Rightarrow> (error + pyval) \<times> DataStore" where
  "get now key s =
     (case dict_lookup (data s) key of
        Inl e \<Rightarrow> (Inl e, s)
      | Inr None \<Rightarrow> (Inl (KeyNotInDatastore key), s)
      | Inr (Some entry) \<Rightarrow>
          (case star_args entry of
             Inl e \<Rightarrow> (Inl e, s)
           | Inr args \<Rightarrow>
               (case DataStoreVO_init args of
                  Inl e \<Rightarrow> (Inl e, s)
                | Inr vo \<Rightarrow>
                    (case is_expired now vo of
                       Inl e \<Rightarrow> (Inl e, s)
                     | Inr True \<Rightarrow>
                         (case flush (s\<lparr>data := dict_delitem (data s) key\<rparr>) of
                            (Inl e, s1) \<Rightarrow> (Inl e, s1)
                          | (Inr _, s1) \<Rightarrow> (Inl (TtlExpired key), s1))
                     | Inr False \<Rightarrow> (Inr (vo_value vo), s)))))"

text \<open>\<^verbatim>\<open>DataStore.delete_all\<close>.\<close>

definition delete_all :: "DataStore \<Rightarrow> (error + unit) \<times> DataStore" where
  "delete_all s = flush (s\<lparr>data := []\<rparr>)"

text \<open>\<^verbatim>\<open>DataStore.__getitem__\<close>.\<close>

definition getitem :: "int \<Rightarrow> pyval \<Rightarrow> DataStore \<Rightarrow> (error + pyval) \<times> DataStore" where
  "getitem now item s = get now item s"

section \<open>Opening a store\<close>

text \<open>
  \<^verbatim>\<open>DataStore._get_mmaped_fd\<close> over the content of the file: \<^verbatim>\<open>mmap.mmap\<close> refuses an
  empty file, and \<^verbatim>\<open>resize\<close> cuts the file or fills it with zero bytes up to
  \<^verbatim>\<open>MAX_LOCAL_STORAGE_SIZE\<close>, and refuses the size zero.
\<close>

definition get_mmaped_fd :: "config \<Rightarrow> bytes \<Rightarrow> error + mmap_obj" where
  "get_mmaped_fd cfg file =
     (if file = [] \<or> MAX_LOCAL_STORAGE_SIZE cfg = 0 then Inl MmapError
      else Inr \<lparr>buf = take (MAX_LOCAL_STORAGE_SIZE cfg) file
                       @ replicate (MAX_LOCAL_STORAGE_SIZE cfg - length file) (CHR 0x00),
                pos = 0\<rparr>)"

text \<open>
  \<^verbatim>\<open>DataStore._read_data\<close>. The Python code keeps whatever \<^verbatim>\<open>json.loads\<close> returns;
  the methods above work on a dictionary, and a file whose JSON text is no object is
  outside the development.
\<close>

definition read_data :: "mmap_obj \<Rightarrow> error + pydict" where
  "read_data m =
     (case decode_ascii (buf m) of
        Inl e \<Rightarrow> Inl e
      | Inr raw_data \<Rightarrow>
          (case json_loads (rstrip_nul raw_data) of
             Inl e \<Rightarrow> Inl e
           | Inr (PyDict d) \<Rightarrow> Inr d
           | Inr _ \<Rightarrow> Inl Unmodelled))"

text \<open>\<^verbatim>\<open>DataStore.__init__\<close>.\<close>

definition DataStore_init :: "config \<Rightarrow> bytes \<Rightarrow> error + DataStore" where
  "DataStore_init cfg file =
     (case get_mmaped_fd cfg file of
        Inl e \<Rightarrow> Inl e
      | Inr m \<Rightarrow>
          (case read_data m of
             Inl e \<Rightarrow> Inl e
           | Inr d \<Rightarrow> Inr \<lparr>data = d, mmap = m\<rparr>))"

text \<open>
  \<^verbatim>\<open>get_instance\<close> of \<^verbatim>\<open>__init__.py\<close>, for a file that this process can lock: a new or
  empty file (the content \<open>[]\<close>) first receives the two bytes \<^verbatim>\<open>{}\<close>.
\<close>

definition get_instance :: "config \<Rightarrow> bytes \<Rightarrow> error + DataStore" where
  "get_instance cfg file = DataStore_init cfg (if file = [] then ''{}'' else file)"

section \<open>Predicates of the specification\<close>


text \<open>
  The mapped region mirrors the map: \<^verbatim>\<open>json.dumps\<close> gives a text for the map, and the
  region holds that text from offset 0 on and zero bytes from there to the configured
  capacity.
\<close>

definition in_sync :: "config \<Rightarrow> DataStore \<Rightarrow> bool" where
  "in_sync cfg s =
     (case json_dumps (PyDict (data s)) of
        Inl e \<Rightarrow> False
      | Inr text \<Rightarrow>
          length text \<le> MAX_LOCAL_STORAGE_SIZE cfg \<and>
          buf (mmap s) = text @ replicate (MAX_LOCAL_STORAGE_SIZE cfg - length text) (CHR 0x00))"

text \<open>
  Two predicates on JSON text: the characters that can follow a value inside an array or
  an object, and the characters that can open one.
\<close>

definition value_end :: "string \<Rightarrow> bool" where
  "value_end r = (case r of [] \<Rightarrow> True | c # _ \<Rightarrow> c = CHR '','' \<or> c = CHR '']'' \<or> c = CHR ''}'')"


section \<open>Sample stores\<close>

text \<open>
  Concrete stores for the closed theorems below. \<open>example_config n\<close> allows keys of up to
  four characters and a region of \<open>n\<close> bytes; \<open>new_store n\<close> is the store that
  \<^verbatim>\<open>get_instance\<close> builds over a new file; \<open>compact_file\<close> is the JSON text
  \<^verbatim>\<open>{"a":[{},0,null]}\<close> as another writer produces it, without the spaces of
  \<^verbatim>\<open>json.dumps\<close>; \<open>overfull_store\<close> is what two calls of \<^verbatim>\<open>create\<close> leave in a region
  of 20 bytes, the second of which does not fit; \<open>one_record_store\<close> and
  \<open>expiring_store\<close> hold one record, without a ttl and with a ttl of one second.
\<close>

definition example_config :: "nat \<Rightarrow> config" where
  "example_config n =
     \<lparr>MAX_KEY_LEN = 4, MAX_VALUE_SIZE = 16384, MAX_LOCAL_STORAGE_SIZE = n,
      getsizeof = (\<lambda>_. 232)\<rparr>"

definition new_store :: "nat \<Rightarrow> DataStore" where
  "new_store n = \<lparr>data = [], mmap = \<lparr>buf = ''{}'' @ replicate (n - 2) (CHR 0x00), pos = 0\<rparr>\<rparr>"


definition overfull_store :: DataStore where
  "overfull_store =
     snd (create (example_config 20) 0 (PyStr ''b'') (PyDict [(''x'', PyInt 1)]) PyNone
       (snd (create (example_config 20) 0 (PyStr ''a'') (PyDict []) (PyInt 0) (new_store 20))))"

definition one_record_store :: DataStore where
  "one_record_store =
     snd (create (example_config 64) 0 (PyStr ''ab'') (PyDict [(''x'', PyInt 1)]) PyNone
       (new_store 64))"

definition expiring_store :: DataStore where
  "expiring_store =
     snd (create (example_config 64) 0 (PyStr ''ab'') (PyDict [(''x'', PyInt 1)]) (PyInt 1)
       (new_store 64))"

section \<open>The text json.dumps writes is ASCII\<close>

declare show_nat.simps [simp del]

lemma is_ascii_digit_char: "n < 10 \<Longrightarrow> is_ascii (digit_char n)"
  by (simp add: is_ascii_def digit_char_def)

lemma ascii_show_nat: "list_all is_ascii (show_nat n)"
proof (induction n rule: show_nat.induct)
  case (1 n)
  show ?case
  proof (cases "n < 10")
    case True
    then show ?thesis by (subst show_nat.simps) (simp add: is_ascii_digit_char)
  next
    case False
    with 1 show ?thesis by (subst show_nat.simps) (simp add: is_ascii_digit_char)
  qed
qed

lemma ascii_show_int: "list_all is_ascii (show_int i)"
  by (simp add: show_int_def ascii_show_nat is_ascii_def)

lemma is_ascii_hexdigit: "n < 16 \<Longrightarrow> is_ascii (hexdigit n)"
  by (simp add: is_ascii_def hexdigit_def)

lemma ascii_escape_char: "list_all is_ascii (escape_char c)"
proof -
  have "(of_char c :: nat) < 256" by simp
  then have "(of_char c :: nat) div 16 < 16" by arith
  then show ?thesis
    by (simp add: escape_char_def is_ascii_hexdigit) (simp add: is_ascii_def)
qed

lemma ascii_encode_str: "list_all is_ascii (py_encode_basestring_ascii s)"
proof -
  have "list_all is_ascii (concat (map escape_char s))"
    by (induction s) (simp_all add: ascii_escape_char)
  then show ?thesis
    by (simp add: py_encode_basestring_ascii_def is_ascii_def)
qed

lemma ascii_iterencode:
  "list_all is_ascii (iterencode v)"
  "list_all is_ascii (iterencode_list xs)"
  "list_all is_ascii (iterencode_dict kvs)"
proof (induction v and xs and kvs rule: iterencode_iterencode_list_iterencode_dict.induct)
  case (3 i)
  then show ?case by (simp add: ascii_show_int)
next
  case (4 s)
  then show ?case by (simp add: ascii_encode_str)
next
  case (10 k v kvs)
  then show ?case by (simp add: ascii_encode_str) (simp add: is_ascii_def)
qed (simp_all add: is_ascii_def)

lemma json_dumps_Inr: "json_dumps v = Inr t \<Longrightarrow> serializable v \<and> t = iterencode v"
  by (auto simp: json_dumps_def split: if_splits)

lemma json_dumps_Inl: "json_dumps v = Inl e \<Longrightarrow> e = NotSerializable"
  by (auto simp: json_dumps_def split: if_splits)

lemma encode_ascii_dumps: "json_dumps v = Inr t \<Longrightarrow> encode_ascii t = Inr t"
  using ascii_iterencode(1) [of v] by (auto simp: encode_ascii_def dest: json_dumps_Inr)

lemma flush_fits:
  assumes "json_dumps (PyDict (data s)) = Inr t" and "length t \<le> length (buf (mmap s))"
  shows "flush s =
    (Inr (), s\<lparr>mmap := \<lparr>buf = t @ replicate (length (buf (mmap s)) - length t) (CHR 0x00),
        pos = length t\<rparr>\<rparr>)"
  unfolding flush_def Let_def assms(1)
  using assms(2)
  by (simp add: encode_ascii_dumps [OF assms(1)] mmap_seek_def mmap_write_def mmap_set_tail_def
      mmap_size_def mmap_tell_def)

lemma flush_overflow:
  assumes "json_dumps (PyDict (data s)) = Inr t" and "length (buf (mmap s)) < length t"
  shows "flush s = (Inl DataOutOfRange, s\<lparr>mmap := (mmap s)\<lparr>pos := 0\<rparr>\<rparr>)"
  unfolding flush_def Let_def assms(1)
  using assms(2)
  by (simp add: encode_ascii_dumps [OF assms(1)] mmap_seek_def mmap_write_def)

lemma flush_not_serializable:
  assumes "json_dumps (PyDict (data s)) = Inl e"
  shows "flush s = (Inl NotSerializable, s\<lparr>mmap := (mmap s)\<lparr>pos := 0\<rparr>\<rparr>)"
  unfolding flush_def Let_def assms
  using json_dumps_Inl [OF assms] by (simp add: mmap_seek_def)

lemma flush_cases:
  obtains (fits) t where "json_dumps (PyDict (data s)) = Inr t" "length t \<le> length (buf (mmap s))"
      "flush s = (Inr (), s\<lparr>mmap := \<lparr>buf = t @ replicate (length (buf (mmap s)) - length t) (CHR 0x00),
          pos = length t\<rparr>\<rparr>)"
    | (overflow) t where "json_dumps (PyDict (data s)) = Inr t" "length (buf (mmap s)) < length t"
      "flush s = (Inl DataOutOfRange, s\<lparr>mmap := (mmap s)\<lparr>pos := 0\<rparr>\<rparr>)"
    | (raises) "\<exists>e. json_dumps (PyDict (data s)) = Inl e"
      "flush s = (Inl NotSerializable, s\<lparr>mmap := (mmap s)\<lparr>pos := 0\<rparr>\<rparr>)"
proof (cases "json_dumps (PyDict (data s))")
  case (Inl e)
  then show ?thesis using flush_not_serializable [OF Inl] raises by blast
next
  case (Inr t)
  show ?thesis
  proof (cases "length t \<le> length (buf (mmap s))")
    case True
    then show ?thesis using flush_fits [OF Inr True] Inr fits by blast
  next
    case False
    then have "length (buf (mmap s)) < length t" by simp
    then show ?thesis using flush_overflow [OF Inr] Inr overflow by blast
  qed
qed

lemma data_flush: "data (snd (flush s)) = data s"
  by (cases s rule: flush_cases) simp_all

lemma length_buf_flush: "length (buf (mmap (snd (flush s)))) = length (buf (mmap s))"
  by (cases s rule: flush_cases) simp_all

lemma flush_flush: "flush (snd (flush s)) = flush s"
proof (cases s rule: flush_cases)
  case (fits t)
  let ?s1 = "s\<lparr>mmap := \<lparr>buf = t @ replicate (length (buf (mmap s)) - length t) (CHR 0x00),
      pos = length t\<rparr>\<rparr>"
  have d: "json_dumps (PyDict (data ?s1)) = Inr t" using fits(1) by simp
  have l: "length t \<le> length (buf (mmap ?s1))" using fits(2) by simp
  show ?thesis
    unfolding fits(3) using flush_fits [OF d l] fits(2) by simp
next
  case (overflow t)
  let ?s1 = "s\<lparr>mmap := (mmap s)\<lparr>pos := 0\<rparr>\<rparr>"
  have d: "json_dumps (PyDict (data ?s1)) = Inr t" using overflow(1) by simp
  have l: "length (buf (mmap ?s1)) < length t" using overflow(2) by simp
  show ?thesis
    unfolding overflow(3) using flush_overflow [OF d l] by simp
next
  case raises
  let ?s1 = "s\<lparr>mmap := (mmap s)\<lparr>pos := 0\<rparr>\<rparr>"
  from raises(1) obtain e where "json_dumps (PyDict (data ?s1)) = Inl e" by auto
  from flush_not_serializable [OF this] show ?thesis
    unfolding raises(2) by simp
qed

section \<open>Reading back what json.dumps wrote\<close>















lemma value_end_skip_ws: "value_end r \<Longrightarrow> skip_ws r = r"
  by (cases r) (auto simp: value_end_def skip_ws_def is_ws_def)
















lemma update_fresh: "k \<notin> fst ` set d \<Longrightarrow> AList.update k v d = d @ [(k, v)]"
  by (induction d) auto





section \<open>Reopening a flushed region\<close>









section \<open>The methods, case by case\<close>

lemma py_int_examples:
  "py_int (PyStr '' 12 '') = Some 12" "py_int (PyStr ''-1_0'') = Some (- 10)"
  "py_int (PyStr [CHR 0x1C, CHR ''5'']) = None" "py_int (PyStr [CHR ''5'', CHR 0x1F]) = None"
  "py_int (PyStr [CHR 0xA0, CHR ''5'', CHR 0x85]) = Some 5" "py_int (PyStr ''1__0'') = None"
  "py_int (PyStr ''- 5'') = None" "py_int (PyStr []) = None" "py_int (PyObject True 0) = None"
  by code_simp+

lemma dict_lookup_str: "dict_lookup d (PyStr k) = Inr (map_of d k)"
  by (simp add: dict_lookup_def)

lemma dict_contains_str: "dict_contains d (PyStr k) = Inr (k \<in> fst ` set d)"
  by (simp add: dict_contains_def dict_lookup_def map_of_eq_None_iff)

lemma dict_contains_unhashable: "\<not> hashable key \<Longrightarrow> dict_contains d key = Inl TypeError"
  by (simp add: dict_contains_def dict_lookup_def)

lemma dict_contains_other:
  "hashable key \<Longrightarrow> \<forall>k. key \<noteq> PyStr k \<Longrightarrow> dict_contains d key = Inr False"
  by (cases key) (simp_all add: dict_contains_def dict_lookup_def)

lemma coerce_ttl_cases:
  "coerce_ttl ttl = Some ttl1 \<Longrightarrow> ttl1 = PyNone \<or> (\<exists>t. ttl1 = PyInt t)"
  by (auto simp: coerce_ttl_def split: if_splits)

lemma create_present:
  "k \<in> fst ` set (data s) \<Longrightarrow>
   create cfg now (PyStr k) v ttl s = (Inl (KeyAlreadyPresent (PyStr k)), s)"
  by (simp add: create_def dict_contains_str)

lemma create_valid:
  assumes "k \<notin> fst ` set (data s)"
    and "int (length k) \<le> MAX_KEY_LEN cfg"
    and "getsizeof cfg (PyDict d) \<le> MAX_VALUE_SIZE cfg"
    and "coerce_ttl ttl = Some ttl1"
  shows "create cfg now (PyStr k) (PyDict d) ttl s =
     flush (s\<lparr>data := data s @ [(k, PyList [PyDict d, PyInt now, ttl1])]\<rparr>)"
  using assms
  by (simp add: create_def dict_contains_str is_valid_def dict_setitem_def update_fresh)

lemma create_key_too_long:
  assumes "k \<notin> fst ` set (data s)" and "MAX_KEY_LEN cfg < int (length k)"
  shows "create cfg now (PyStr k) v ttl s =
     (Inl (SizeConfigNotMet (MAX_KEY_LEN cfg) (MAX_VALUE_SIZE cfg)), s)"
  using assms by (simp add: create_def dict_contains_str is_valid_def)

lemma get_live:
  assumes "dict_lookup (data s) key = Inr (Some (PyList (v # c # t # extra)))"
    and "is_expired now \<lparr>vo_value = v, vo_ttl = t, vo_created_at = c\<rparr> = Inr False"
  shows "get now key s = (Inr v, s)"
  using assms by (simp add: get_def star_args_def DataStoreVO_init_def)

lemma get_missing:
  assumes "k \<notin> fst ` set (data s)"
  shows "get now (PyStr k) s = (Inl (KeyNotInDatastore (PyStr k)), s)"
proof -
  have "map_of (data s) k = None" using assms by (simp add: map_of_eq_None_iff)
  then show ?thesis by (simp add: get_def dict_lookup_str)
qed

lemma map_of_snoc_fresh: "k \<notin> fst ` set d \<Longrightarrow> map_of (d @ [(k, e)]) k = Some e"
  by (induction d) auto

lemma get_expired_flush:
  assumes "map_of (data s) k = Some (PyList (v # PyInt c # PyInt t # extra))"
    and "now - c > t * 1000"
  shows "get now (PyStr k) s =
     (case flush (s\<lparr>data := AList.delete k (data s)\<rparr>) of
        (Inl e, s1) \<Rightarrow> (Inl e, s1)
      | (Inr u, s1) \<Rightarrow> (Inl (TtlExpired (PyStr k)), s1))"
  using assms
  by (simp add: get_def dict_lookup_str star_args_def DataStoreVO_init_def is_expired_def
      dict_delitem_def)

lemma flush_data_eq: "flush s = (r, s1) \<Longrightarrow> data s1 = data s"
  using data_flush [of s] by simp

lemma create_ok_data:
  assumes "create cfg now (PyStr k) v PyNone s = (Inr (), s1)"
  shows "map_of (data s1) k = Some (PyList [v, PyInt now, PyNone])"
proof -
  have absent: "k \<notin> fst ` set (data s)"
  proof
    assume "k \<in> fst ` set (data s)"
    from create_present [OF this, of cfg now v PyNone] assms show False by simp
  qed
  have "data s1 = data s @ [(k, PyList [v, PyInt now, PyNone])]"
    using assms absent
    by (auto simp: create_def dict_contains_str coerce_ttl_def dict_setitem_def update_fresh
        split: sum.splits bool.splits dest!: flush_data_eq)
  then show ?thesis using map_of_snoc_fresh [OF absent] by simp
qed

lemma create_validation_error_absent:
  assumes "fst (create cfg now key v ttl s) = Inl e"
    and "e = KeyMustBeStr key \<or> e = ValueMustBeDict v
         \<or> e = SizeConfigNotMet (MAX_KEY_LEN cfg) (MAX_VALUE_SIZE cfg)"
  shows "dict_contains (data s) key = Inr False"
proof (cases "dict_contains (data s) key")
  case (Inl x)
  then have "x = TypeError" by (auto simp: dict_contains_def dict_lookup_def split: if_splits)
  with Inl assms show ?thesis by (auto simp: create_def)
next
  case (Inr b)
  with assms show ?thesis by (cases b) (auto simp: create_def)
qed

section \<open>The region mirrors the map\<close>









lemma dict_lookup_error: "dict_lookup d key = Inl e \<Longrightarrow> e = TypeError"
  by (auto simp: dict_lookup_def split: if_splits)

lemma star_args_error: "star_args entry = Inl e \<Longrightarrow> e = TypeError \<or> e = Unmodelled"
  by (auto simp: star_args_def split: pyval.splits)

lemma DataStoreVO_init_error: "DataStoreVO_init args = Inl e \<Longrightarrow> e = TypeError"
  by (auto simp: DataStoreVO_init_def split: list.splits)

lemma is_expired_error: "is_expired now vo = Inl e \<Longrightarrow> e = TypeError"
  by (auto simp: is_expired_def split: if_splits option.splits)

lemma get_cases:
  "(\<exists>r. get now key s = (r, s) \<and> r \<noteq> Inl (TtlExpired key))
   \<or> get now key s =
       (case flush (s\<lparr>data := dict_delitem (data s) key\<rparr>) of
          (Inl e, s1) \<Rightarrow> (Inl e, s1)
        | (Inr u, s1) \<Rightarrow> (Inl (TtlExpired key), s1))"
  by (auto simp: get_def split: sum.splits bool.splits option.splits
      dest: dict_lookup_error star_args_error DataStoreVO_init_error is_expired_error)

lemma delete_cases:
  "(\<exists>r. delete key s = (r, s)) \<or> delete key s = flush (s\<lparr>data := dict_delitem (data s) key\<rparr>)"
  by (auto simp: delete_def split: sum.splits bool.splits)







section \<open>Records that an operation does not touch\<close>

lemma map_of_setitem_other: "key \<noteq> PyStr k \<Longrightarrow> map_of (dict_setitem d key e) k = map_of d k"
  by (cases key) (auto simp: dict_setitem_def update_conv')

lemma map_of_delitem_other: "key \<noteq> PyStr k \<Longrightarrow> map_of (dict_delitem d key) k = map_of d k"
  by (cases key) (auto simp: dict_delitem_def delete_conv')

lemma create_data:
  "data (snd (create cfg now key v ttl s)) = data s
   \<or> (\<exists>e. data (snd (create cfg now key v ttl s)) = dict_setitem (data s) key e)"
  by (auto simp: create_def Let_def data_flush split: sum.splits bool.splits option.splits)

lemma get_data:
  "data (snd (get now key s)) = data s
   \<or> data (snd (get now key s)) = dict_delitem (data s) key"
proof -
  let ?s1 = "s\<lparr>data := dict_delitem (data s) key\<rparr>"
  obtain r s2 where f: "flush ?s1 = (r, s2)" by (cases "flush ?s1")
  then have "data s2 = dict_delitem (data s) key" using flush_data_eq [OF f] by simp
  then show ?thesis
    using get_cases [of now key s] by (auto simp: f split: sum.splits)
qed

lemma delete_data:
  "data (snd (delete key s)) = data s
   \<or> data (snd (delete key s)) = dict_delitem (data s) key"
  using delete_cases [of key s] by (auto simp: data_flush)

lemma others_keep_key:
  assumes "key \<noteq> PyStr k"
  shows "map_of (data (snd (create cfg now key v ttl s))) k = map_of (data s) k"
    and "map_of (data (snd (delete key s))) k = map_of (data s) k"
    and "map_of (data (snd (get now key s))) k = map_of (data s) k"
  using create_data [of cfg now key v ttl s] delete_data [of key s] get_data [of now key s]
    map_of_setitem_other [OF assms] map_of_delitem_other [OF assms]
  by auto

section \<open>Properties\<close>

subsection \<open>C1: create, then get\<close>

text \<open>
  Claim C1. Take a store that does not hold the key, a key that is a string of at most
  \<open>MAX_KEY_LEN\<close> characters, a value that is a dictionary with
  \<open>getsizeof \<le> MAX_VALUE_SIZE\<close>, and a ttl that is \<^verbatim>\<open>None\<close> or goes through \<^verbatim>\<open>int\<close>
  (\<open>ttl1\<close> is what \<^verbatim>\<open>create\<close> stores for it). After \<^verbatim>\<open>create\<close> at time \<open>now1\<close>, a
  \<^verbatim>\<open>get\<close> at a time \<open>now2\<close> at which the ttl has not elapsed returns exactly the value
  given to \<^verbatim>\<open>create\<close>, and leaves the store as it is. This holds whether the flush
  inside \<^verbatim>\<open>create\<close> returned normally or raised: the record is in the map before the
  flush starts.
\<close>

theorem create_then_get:
  assumes absent: "k \<notin> fst ` set (data s)"
    and key: "int (length k) \<le> MAX_KEY_LEN cfg"
    and val: "getsizeof cfg (PyDict d) \<le> MAX_VALUE_SIZE cfg"
    and ttl: "coerce_ttl ttl = Some ttl1"
    and live: "case ttl1 of PyInt t \<Rightarrow> now2 - now1 \<le> t * 1000 | _ \<Rightarrow> True"
  shows "get now2 (PyStr k) (snd (create cfg now1 (PyStr k) (PyDict d) ttl s))
       = (Inr (PyDict d), snd (create cfg now1 (PyStr k) (PyDict d) ttl s))"
proof -
  let ?entry = "PyList [PyDict d, PyInt now1, ttl1]"
  let ?s1 = "snd (create cfg now1 (PyStr k) (PyDict d) ttl s)"
  have "data ?s1 = data s @ [(k, ?entry)]"
    by (simp add: create_valid [OF absent key val ttl] data_flush)
  then have look: "dict_lookup (data ?s1) (PyStr k) = Inr (Some ?entry)"
    using map_of_snoc_fresh [OF absent] by (simp add: dict_lookup_str)
  have "is_expired now2 \<lparr>vo_value = PyDict d, vo_ttl = ttl1, vo_created_at = PyInt now1\<rparr> = Inr False"
    using coerce_ttl_cases [OF ttl] live by (auto simp: is_expired_def)
  with look show ?thesis by (rule get_live)
qed

text \<open>
  The theorem at a new store of 64 bytes: the ttl is the string \<^verbatim>\<open>"5"\<close>, and the value
  is read 5000 ms after it was created.
\<close>

theorem create_then_get_witness:
  "''ab'' \<notin> fst ` set (data (new_store 64)) \<and>
   int (length ''ab'') \<le> MAX_KEY_LEN (example_config 64) \<and>
   getsizeof (example_config 64) (PyDict [(''x'', PyInt 1)]) \<le> MAX_VALUE_SIZE (example_config 64) \<and>
   coerce_ttl (PyStr ''5'') = Some (PyInt 5) \<and>
   (5000 :: int) - 0 \<le> 5 * 1000 \<and>
   get 5000 (PyStr ''ab'')
     (snd (create (example_config 64) 0 (PyStr ''ab'') (PyDict [(''x'', PyInt 1)]) (PyStr ''5'')
        (new_store 64)))
   = (Inr (PyDict [(''x'', PyInt 1)]),
      snd (create (example_config 64) 0 (PyStr ''ab'') (PyDict [(''x'', PyInt 1)]) (PyStr ''5'')
        (new_store 64)))"
proof -
  have h1: "''ab'' \<notin> fst ` set (data (new_store 64))" by (simp add: new_store_def)
  have h2: "int (length ''ab'') \<le> MAX_KEY_LEN (example_config 64)"
    by (simp add: example_config_def)
  have h3: "getsizeof (example_config 64) (PyDict [(''x'', PyInt 1)])
      \<le> MAX_VALUE_SIZE (example_config 64)"
    by (simp add: example_config_def)
  have h4: "coerce_ttl (PyStr ''5'') = Some (PyInt 5)" by code_simp
  have h5: "case PyInt 5 of PyInt t \<Rightarrow> (5000 :: int) - 0 \<le> t * 1000 | _ \<Rightarrow> True" by simp
  have h6: "(5000 :: int) - 0 \<le> 5 * 1000" by simp
  from create_then_get [OF h1 h2 h3 h4 h5] h1 h2 h3 h4 h6 show ?thesis by blast
qed

subsection \<open>C2: the region mirrors the map\<close>




subsection \<open>C3: create with a key that is present\<close>

text \<open>
  Claim C3. In every store that holds the key, \<^verbatim>\<open>create\<close> raises the error
  \<^verbatim>\<open>Key '...' already present.\<close> and returns the store as it was: the same map, the
  same region, the same cursor. In particular, once \<^verbatim>\<open>create(k, v1)\<close> has returned
  normally, a second \<^verbatim>\<open>create(k, v2)\<close> raises that error and \<^verbatim>\<open>get(k)\<close> still returns
  \<open>v1\<close>.
\<close>

theorem create_duplicate_key:
  "(k \<in> fst ` set (data s) \<longrightarrow>
      create cfg now (PyStr k) v ttl s = (Inl (KeyAlreadyPresent (PyStr k)), s)) \<and>
   (create cfg now1 (PyStr k) v1 PyNone s = (Inr (), s1) \<longrightarrow>
      create cfg now2 (PyStr k) v2 ttl s1 = (Inl (KeyAlreadyPresent (PyStr k)), s1) \<and>
      get now3 (PyStr k) s1 = (Inr v1, s1))"
proof (intro conjI impI)
  assume "k \<in> fst ` set (data s)"
  then show "create cfg now (PyStr k) v ttl s = (Inl (KeyAlreadyPresent (PyStr k)), s)"
    by (rule create_present)
next
  assume ok: "create cfg now1 (PyStr k) v1 PyNone s = (Inr (), s1)"
  have m: "map_of (data s1) k = Some (PyList [v1, PyInt now1, PyNone])"
    by (rule create_ok_data [OF ok])
  then have "k \<in> fst ` set (data s1)" by (metis map_of_eq_None_iff option.distinct(1))
  then show "create cfg now2 (PyStr k) v2 ttl s1 = (Inl (KeyAlreadyPresent (PyStr k)), s1)"
    by (rule create_present)
  show "get now3 (PyStr k) s1 = (Inr v1, s1)"
    by (rule get_live [where c = "PyInt now1" and t = PyNone and extra = "[]"])
       (simp_all add: dict_lookup_str m is_expired_def)
qed

text \<open>
  The scenario of the specification on a store of 64 bytes.
\<close>

theorem create_duplicate_key_witness:
  "''ab'' \<in> fst ` set (data one_record_store) \<and>
   create (example_config 64) 9 (PyStr ''ab'') (PyDict [(''x'', PyInt 2)]) PyNone one_record_store
     = (Inl (KeyAlreadyPresent (PyStr ''ab'')), one_record_store) \<and>
   create (example_config 64) 0 (PyStr ''ab'') (PyDict [(''x'', PyInt 1)]) PyNone (new_store 64)
     = (Inr (), one_record_store) \<and>
   get 7 (PyStr ''ab'') one_record_store = (Inr (PyDict [(''x'', PyInt 1)]), one_record_store)"
proof -
  have h1: "''ab'' \<in> fst ` set (data one_record_store)" by code_simp
  have h2: "create (example_config 64) 0 (PyStr ''ab'') (PyDict [(''x'', PyInt 1)]) PyNone
      (new_store 64) = (Inr (), one_record_store)"
    by code_simp
  from create_duplicate_key [where k = "''ab''" and s = one_record_store
      and cfg = "example_config 64" and now = 9 and v = "PyDict [(''x'', PyInt 2)]"
      and ttl = PyNone and ?now1.0 = 0 and ?v1.0 = "PyDict [(''x'', PyInt 1)]"
      and ?s1.0 = one_record_store and ?now2.0 = 9 and ?v2.0 = "PyDict [(''x'', PyInt 2)]"
      and ?now3.0 = 7]
    create_duplicate_key [where k = "''ab''" and s = "new_store 64"
      and cfg = "example_config 64" and now = 9 and v = "PyDict [(''x'', PyInt 2)]"
      and ttl = PyNone and ?now1.0 = 0 and ?v1.0 = "PyDict [(''x'', PyInt 1)]"
      and ?s1.0 = one_record_store and ?now2.0 = 9 and ?v2.0 = "PyDict [(''x'', PyInt 2)]"
      and ?now3.0 = 7]
    h1 h2
  show ?thesis by blast
qed

subsection \<open>C4: get of an expired record\<close>

text \<open>
  Claim C4, as amended. Let the map hold, under the key \<open>k\<close>, a record with creation
  time \<open>c\<close> and ttl \<open>t\<close>, and let \<open>now - c > t * 1000\<close>. Then \<^verbatim>\<open>get(k)\<close> removes the
  key from the map, and every later \<^verbatim>\<open>get(k)\<close> on the store it leaves raises the
  not-found error. When \<^verbatim>\<open>json.dumps\<close> gives a text for the remaining map and that text
  fits the region, \<^verbatim>\<open>get(k)\<close> raises the expiry error and leaves the region equal to
  that text, padded with zero bytes. Expiry is looked at on access only: \<^verbatim>\<open>create\<close>,
  \<^verbatim>\<open>delete\<close> and \<^verbatim>\<open>get\<close> with another key, and \<^verbatim>\<open>flush\<close>, leave the record of \<open>k\<close> in
  the map, expired or not (\<^verbatim>\<open>delete_all\<close> empties the map whatever the ttls).
\<close>

theorem get_expired:
  assumes entry: "map_of (data s) k = Some (PyList (v # PyInt c # PyInt t # extra))"
    and expired: "now - c > t * 1000"
  shows "data (snd (get now (PyStr k) s)) = AList.delete k (data s) \<and>
    get now1 (PyStr k) (snd (get now (PyStr k) s))
      = (Inl (KeyNotInDatastore (PyStr k)), snd (get now (PyStr k) s)) \<and>
    (json_dumps (PyDict (AList.delete k (data s))) = Inr js \<and>
     length js \<le> length (buf (mmap s)) \<longrightarrow>
       fst (get now (PyStr k) s) = Inl (TtlExpired (PyStr k)) \<and>
       buf (mmap (snd (get now (PyStr k) s))) =
         js @ replicate (length (buf (mmap s)) - length js) (CHR 0x00)) \<and>
    (key \<noteq> PyStr k \<longrightarrow>
       map_of (data (snd (create cfg now key v1 ttl1 s))) k = map_of (data s) k \<and>
       map_of (data (snd (delete key s))) k = map_of (data s) k \<and>
       map_of (data (snd (get now key s))) k = map_of (data s) k) \<and>
    data (snd (delete_all s)) = [] \<and>
    data (snd (flush s)) = data s"
proof -
  let ?s1 = "s\<lparr>data := AList.delete k (data s)\<rparr>"
  let ?g = "get now (PyStr k) s"
  have g: "?g = (case flush ?s1 of (Inl e, s1) \<Rightarrow> (Inl e, s1)
                 | (Inr u, s1) \<Rightarrow> (Inl (TtlExpired (PyStr k)), s1))"
    by (rule get_expired_flush [OF entry expired])
  obtain r s2 where f: "flush ?s1 = (r, s2)" by (cases "flush ?s1")
  have s2: "snd ?g = s2" by (simp add: g f split: sum.splits)
  have d: "data s2 = AList.delete k (data s)" using flush_data_eq [OF f] by simp
  have gone: "k \<notin> fst ` set (data s2)" by (simp add: d delete_notin_dom)
  have a: "data (snd ?g) = AList.delete k (data s)" by (simp add: s2 d)
  have b: "get now1 (PyStr k) (snd ?g) = (Inl (KeyNotInDatastore (PyStr k)), snd ?g)"
    unfolding s2 by (rule get_missing [OF gone])
  have c: "fst ?g = Inl (TtlExpired (PyStr k)) \<and>
       buf (mmap (snd ?g)) = js @ replicate (length (buf (mmap s)) - length js) (CHR 0x00)"
    if dumps: "json_dumps (PyDict (AList.delete k (data s))) = Inr js"
      and fits: "length js \<le> length (buf (mmap s))"
  proof -
    have d1: "json_dumps (PyDict (data ?s1)) = Inr js" using dumps by simp
    have l1: "length js \<le> length (buf (mmap ?s1))" using fits by simp
    from flush_fits [OF d1 l1] show ?thesis by (simp add: g)
  qed
  have e: "key \<noteq> PyStr k \<longrightarrow>
       map_of (data (snd (create cfg now key v1 ttl1 s))) k = map_of (data s) k \<and>
       map_of (data (snd (delete key s))) k = map_of (data s) k \<and>
       map_of (data (snd (get now key s))) k = map_of (data s) k"
    by (simp add: others_keep_key)
  have f: "data (snd (delete_all s)) = []" "data (snd (flush s)) = data s"
    by (simp_all add: delete_all_def data_flush)
  show ?thesis
    using a b c e f by simp
qed

text \<open>
  The theorem at a record created at time 0 with a ttl of one second, read at 1001 ms.
\<close>

theorem get_expired_witness:
  "map_of (data expiring_store) ''ab'' = Some (PyList [PyDict [(''x'', PyInt 1)], PyInt 0, PyInt 1]) \<and>
   (1001 :: int) - 0 > 1 * 1000 \<and>
   json_dumps (PyDict (AList.delete ''ab'' (data expiring_store))) = Inr ''{}'' \<and>
   length ''{}'' \<le> length (buf (mmap expiring_store)) \<and>
   fst (get 1001 (PyStr ''ab'') expiring_store) = Inl (TtlExpired (PyStr ''ab'')) \<and>
   data (snd (get 1001 (PyStr ''ab'') expiring_store)) = AList.delete ''ab'' (data expiring_store) \<and>
   get 1002 (PyStr ''ab'') (snd (get 1001 (PyStr ''ab'') expiring_store))
     = (Inl (KeyNotInDatastore (PyStr ''ab'')), snd (get 1001 (PyStr ''ab'') expiring_store)) \<and>
   PyStr ''cd'' \<noteq> PyStr ''ab'' \<and>
   map_of (data (snd (create (example_config 64) 1001 (PyStr ''cd'') (PyDict []) PyNone expiring_store))) ''ab''
     = map_of (data expiring_store) ''ab''"
proof -
  have h1: "map_of (data expiring_store) ''ab''
      = Some (PyList (PyDict [(''x'', PyInt 1)] # PyInt 0 # PyInt 1 # []))"
    by code_simp
  have h2: "(1001 :: int) - 0 > 1 * 1000" by simp
  have h3: "json_dumps (PyDict (AList.delete ''ab'' (data expiring_store))) = Inr ''{}''"
    by code_simp
  have h5: "length ''{}'' \<le> length (buf (mmap expiring_store))"
    by code_simp
  have h4: "PyStr ''cd'' \<noteq> PyStr ''ab''" by simp
  from get_expired [OF h1 h2, where ?now1.0 = 1002 and key = "PyStr ''cd''"
      and cfg = "example_config 64" and ?v1.0 = "PyDict []" and ?ttl1.0 = PyNone
      and js = "''{}''"]
    h1 h2 h3 h4 h5
  show ?thesis by blast
qed

text \<open>
  Claim C4 as it was stated fails in \<open>overfull_store\<close>: \<^verbatim>\<open>create("a", {}, 0)\<close> fits the 20
  bytes, \<^verbatim>\<open>create("b", {"x": 1})\<close> does not and leaves both records in the map. One
  millisecond later \<^verbatim>\<open>get("a")\<close> finds the record expired and removes it, but the text of
  the remaining map has 26 bytes: \<^verbatim>\<open>flush\<close> raises the \<^verbatim>\<open>ValueError\<close> of \<^verbatim>\<open>mmap.write\<close>,
  and the expiry error is never raised.
\<close>

theorem get_expired_counterexample:
  "get_instance (example_config 20) [] = Inr (new_store 20) \<and>
   fst (create (example_config 20) 0 (PyStr ''a'') (PyDict []) (PyInt 0) (new_store 20)) = Inr () \<and>
   fst (create (example_config 20) 0 (PyStr ''b'') (PyDict [(''x'', PyInt 1)]) PyNone
          (snd (create (example_config 20) 0 (PyStr ''a'') (PyDict []) (PyInt 0) (new_store 20))))
     = Inl DataOutOfRange \<and>
   map_of (data overfull_store) ''a'' = Some (PyList [PyDict [], PyInt 0, PyInt 0]) \<and>
   (1 :: int) - 0 > 0 * 1000 \<and>
   fst (get 1 (PyStr ''a'') overfull_store) = Inl DataOutOfRange \<and>
   fst (get 1 (PyStr ''a'') overfull_store) \<noteq> Inl (TtlExpired (PyStr ''a''))"
  by code_simp

subsection \<open>C5: flush, then reopen\<close>



subsection \<open>C6: is_expired\<close>

text \<open>
  Claim C6. \<open>is_expired\<close> answers false for a record without ttl, whatever its other
  fields; for a record with creation time \<open>c\<close> and ttl \<open>t\<close> it answers true exactly when
  \<open>now - c > t * 1000\<close>, a strict inequality. The answer is a function of the three
  stored fields and the clock reading alone: no store is read or written.
\<close>

theorem is_expired_spec:
  "is_expired now \<lparr>vo_value = v, vo_ttl = PyNone, vo_created_at = c'\<rparr> = Inr False \<and>
   is_expired now \<lparr>vo_value = v, vo_ttl = PyInt t, vo_created_at = PyInt c\<rparr>
     = Inr (now - c > t * 1000)"
  by (simp add: is_expired_def)

subsection \<open>C7: delete of a missing key\<close>

text \<open>
  Claim C7. \<^verbatim>\<open>delete\<close> with a string that is no key of the map raises nothing and
  returns the store as it was, map and region. The same holds for an argument that is
  not a string but can be hashed, which equals no key.
\<close>

theorem delete_missing_key:
  "(k \<notin> fst ` set (data s) \<longrightarrow> delete (PyStr k) s = (Inr (), s)) \<and>
   (hashable key \<and> (\<forall>k. key \<noteq> PyStr k) \<longrightarrow> delete key s = (Inr (), s))"
  by (simp add: delete_def dict_contains_str dict_contains_other)

text \<open>
  The theorem at the store with one record, for the string \<^verbatim>\<open>"zz"\<close> and the integer 5.
\<close>

theorem delete_missing_key_witness:
  "''zz'' \<notin> fst ` set (data one_record_store) \<and>
   delete (PyStr ''zz'') one_record_store = (Inr (), one_record_store) \<and>
   hashable (PyInt 5) \<and>
   delete (PyInt 5) one_record_store = (Inr (), one_record_store)"
proof -
  have h1: "''zz'' \<notin> fst ` set (data one_record_store)" by code_simp
  have h2: "hashable (PyInt 5)" by simp
  have h3: "\<forall>k. PyInt 5 \<noteq> PyStr k" by simp
  from delete_missing_key [where k = "''zz''" and s = one_record_store and key = "PyInt 5"]
    h1 h2 h3
  show ?thesis by blast
qed

subsection \<open>C8: flush twice\<close>

text \<open>
  Claim C8. A second \<^verbatim>\<open>flush\<close> right after a first one leaves the bytes of the region
  as the first one left them; indeed it returns or raises what the first one did, and
  leaves the same store.
\<close>

theorem flush_twice:
  "flush (snd (flush s)) = flush s \<and>
   buf (mmap (snd (flush (snd (flush s))))) = buf (mmap (snd (flush s)))"
  by (simp add: flush_flush)

text \<open>
  The theorem at the store with one record, where \<^verbatim>\<open>flush\<close> returns normally.
\<close>

theorem flush_twice_witness:
  "fst (flush one_record_store) = Inr () \<and>
   flush (snd (flush one_record_store)) = flush one_record_store"
proof -
  have "fst (flush one_record_store) = Inr ()" by code_simp
  with flush_twice [of one_record_store] show ?thesis by blast
qed

subsection \<open>C9: the bound on the key length\<close>

text \<open>
  Claim C9, as amended. In a store that does not hold the key: \<^verbatim>\<open>create\<close> with a key
  of exactly \<open>MAX_KEY_LEN\<close> characters, a valid value and a valid ttl returns normally and
  appends the record, provided \<^verbatim>\<open>json.dumps\<close> gives a text for the map with the new
  record and that text fits the region; \<^verbatim>\<open>create\<close> with a key of \<open>MAX_KEY_LEN + 1\<close>
  characters raises the size error, whose message gives both bounds, the one on keys and
  the one on values, and leaves the store unchanged.
\<close>

theorem create_key_length_boundary:
  "(k \<notin> fst ` set (data s) \<and> int (length k) = MAX_KEY_LEN cfg \<and>
    getsizeof cfg (PyDict d) \<le> MAX_VALUE_SIZE cfg \<and> coerce_ttl ttl = Some ttl1 \<and>
    json_dumps (PyDict (data s @ [(k, PyList [PyDict d, PyInt now, ttl1])])) = Inr js \<and>
    length js \<le> length (buf (mmap s)) \<longrightarrow>
      fst (create cfg now (PyStr k) (PyDict d) ttl s) = Inr () \<and>
      data (snd (create cfg now (PyStr k) (PyDict d) ttl s))
        = data s @ [(k, PyList [PyDict d, PyInt now, ttl1])]) \<and>
   (k \<notin> fst ` set (data s) \<and> int (length k) = MAX_KEY_LEN cfg + 1 \<longrightarrow>
      create cfg now (PyStr k) v ttl s
        = (Inl (SizeConfigNotMet (MAX_KEY_LEN cfg) (MAX_VALUE_SIZE cfg)), s))"
proof (intro conjI impI)
  assume a: "k \<notin> fst ` set (data s) \<and> int (length k) = MAX_KEY_LEN cfg \<and>
    getsizeof cfg (PyDict d) \<le> MAX_VALUE_SIZE cfg \<and> coerce_ttl ttl = Some ttl1 \<and>
    json_dumps (PyDict (data s @ [(k, PyList [PyDict d, PyInt now, ttl1])])) = Inr js \<and>
    length js \<le> length (buf (mmap s))"
  let ?s1 = "s\<lparr>data := data s @ [(k, PyList [PyDict d, PyInt now, ttl1])]\<rparr>"
  have c: "create cfg now (PyStr k) (PyDict d) ttl s = flush ?s1"
    using a by (intro create_valid) simp_all
  have d1: "json_dumps (PyDict (data ?s1)) = Inr js" using a by simp
  have l1: "length js \<le> length (buf (mmap ?s1))" using a by simp
  from flush_fits [OF d1 l1]
  show "fst (create cfg now (PyStr k) (PyDict d) ttl s) = Inr ()"
    and "data (snd (create cfg now (PyStr k) (PyDict d) ttl s))
        = data s @ [(k, PyList [PyDict d, PyInt now, ttl1])]"
    by (simp_all add: c)
next
  assume "k \<notin> fst ` set (data s) \<and> int (length k) = MAX_KEY_LEN cfg + 1"
  then show "create cfg now (PyStr k) v ttl s
        = (Inl (SizeConfigNotMet (MAX_KEY_LEN cfg) (MAX_VALUE_SIZE cfg)), s)"
    by (intro create_key_too_long) simp_all
qed

text \<open>
  The theorem at a new store of 64 bytes, for keys of four and of five characters.
\<close>

theorem create_key_length_boundary_witness:
  "''abcd'' \<notin> fst ` set (data (new_store 64)) \<and>
   int (length ''abcd'') = MAX_KEY_LEN (example_config 64) \<and>
   getsizeof (example_config 64) (PyDict []) \<le> MAX_VALUE_SIZE (example_config 64) \<and>
   coerce_ttl PyNone = Some PyNone \<and>
   json_dumps (PyDict (data (new_store 64) @ [(''abcd'', PyList [PyDict [], PyInt 0, PyNone])]))
     = Inr (iterencode (PyDict [(''abcd'', PyList [PyDict [], PyInt 0, PyNone])])) \<and>
   length (iterencode (PyDict [(''abcd'', PyList [PyDict [], PyInt 0, PyNone])]))
     \<le> length (buf (mmap (new_store 64))) \<and>
   fst (create (example_config 64) 0 (PyStr ''abcd'') (PyDict []) PyNone (new_store 64)) = Inr () \<and>
   ''abcde'' \<notin> fst ` set (data (new_store 64)) \<and>
   int (length ''abcde'') = MAX_KEY_LEN (example_config 64) + 1 \<and>
   create (example_config 64) 0 (PyStr ''abcde'') (PyDict []) PyNone (new_store 64)
     = (Inl (SizeConfigNotMet (MAX_KEY_LEN (example_config 64)) (MAX_VALUE_SIZE (example_config 64))),
        new_store 64)"
proof -
  have h1: "''abcd'' \<notin> fst ` set (data (new_store 64))" by (simp add: new_store_def)
  have h2: "int (length ''abcd'') = MAX_KEY_LEN (example_config 64)"
    by (simp add: example_config_def)
  have h3: "getsizeof (example_config 64) (PyDict []) \<le> MAX_VALUE_SIZE (example_config 64)"
    by (simp add: example_config_def)
  have h4: "coerce_ttl PyNone = Some PyNone" by (simp add: coerce_ttl_def)
  have h5: "json_dumps (PyDict (data (new_store 64)
      @ [(''abcd'', PyList [PyDict [], PyInt 0, PyNone])]))
     = Inr (iterencode (PyDict [(''abcd'', PyList [PyDict [], PyInt 0, PyNone])]))"
    by code_simp
  have h8: "length (iterencode (PyDict [(''abcd'', PyList [PyDict [], PyInt 0, PyNone])]))
     \<le> length (buf (mmap (new_store 64)))"
    by code_simp
  have h6: "''abcde'' \<notin> fst ` set (data (new_store 64))" by (simp add: new_store_def)
  have h7: "int (length ''abcde'') = MAX_KEY_LEN (example_config 64) + 1"
    by (simp add: example_config_def)
  from create_key_length_boundary [where k = "''abcd''" and s = "new_store 64"
      and cfg = "example_config 64" and d = "[]" and ttl = PyNone and ?ttl1.0 = PyNone
      and now = 0 and v = "PyDict []"
      and js = "iterencode (PyDict [(''abcd'', PyList [PyDict [], PyInt 0, PyNone])])"]
    create_key_length_boundary [where k = "''abcde''" and s = "new_store 64"
      and cfg = "example_config 64" and d = "[]" and ttl = PyNone and ?ttl1.0 = PyNone
      and now = 0 and v = "PyDict []"
      and js = "iterencode (PyDict [(''abcd'', PyList [PyDict [], PyInt 0, PyNone])])"]
    h1 h2 h3 h4 h5 h6 h7 h8
  show ?thesis by blast
qed

text \<open>
  Claim C9 as it was stated fails in a new store of 20 bytes: the key \<^verbatim>\<open>"abcd"\<close> has
  exactly \<open>MAX_KEY_LEN\<close> characters and the value \<^verbatim>\<open>{}\<close> is valid, but the text of the
  map with the record has 23 bytes, and \<^verbatim>\<open>create\<close> raises the \<^verbatim>\<open>ValueError\<close> of
  \<^verbatim>\<open>mmap.write\<close>.
\<close>

theorem create_key_length_counterexample:
  "get_instance (example_config 20) [] = Inr (new_store 20) \<and>
   ''abcd'' \<notin> fst ` set (data (new_store 20)) \<and>
   int (length ''abcd'') = MAX_KEY_LEN (example_config 20) \<and>
   is_valid (example_config 20) (PyStr ''abcd'') ''key'' = Inr True \<and>
   is_valid (example_config 20) (PyDict []) ''value'' = Inr True \<and>
   in_sync (example_config 20) (new_store 20) \<and>
   fst (create (example_config 20) 0 (PyStr ''abcd'') (PyDict []) PyNone (new_store 20))
     = Inl DataOutOfRange"
  by code_simp

subsection \<open>C10: the duplicate check comes first\<close>

text \<open>
  Claim C10. When the key is in the map, \<^verbatim>\<open>create\<close> raises the duplicate-key error
  whatever the value and the ttl are, also where \<^verbatim>\<open>is_valid\<close> would have raised or
  answered false. Conversely, an error of validation (key not a string, value not a
  dictionary, a size bound exceeded) comes out of \<^verbatim>\<open>create\<close> only when the key is not
  in the map.
\<close>

theorem duplicate_check_precedes_validation:
  "(k \<in> fst ` set (data s) \<longrightarrow>
      fst (create cfg now (PyStr k) v ttl s) = Inl (KeyAlreadyPresent (PyStr k))) \<and>
   (fst (create cfg now key v ttl s) = Inl (KeyMustBeStr key) \<or>
    fst (create cfg now key v ttl s) = Inl (ValueMustBeDict v) \<or>
    fst (create cfg now key v ttl s) = Inl (SizeConfigNotMet (MAX_KEY_LEN cfg) (MAX_VALUE_SIZE cfg))
      \<longrightarrow> dict_contains (data s) key = Inr False)"
  using create_validation_error_absent [of cfg now key v ttl s]
  by (auto simp: create_present)

text \<open>
  The theorem with the value 7, which is no dictionary: in the store that holds the key
  the duplicate-key error is raised, in the new store the error of \<^verbatim>\<open>is_valid\<close>.
\<close>

theorem duplicate_check_precedes_validation_witness:
  "''ab'' \<in> fst ` set (data one_record_store) \<and>
   is_valid (example_config 64) (PyInt 7) ''value'' = Inl (ValueMustBeDict (PyInt 7)) \<and>
   fst (create (example_config 64) 0 (PyStr ''ab'') (PyInt 7) PyNone one_record_store)
     = Inl (KeyAlreadyPresent (PyStr ''ab'')) \<and>
   fst (create (example_config 64) 0 (PyStr ''ab'') (PyInt 7) PyNone (new_store 64))
     = Inl (ValueMustBeDict (PyInt 7)) \<and>
   dict_contains (data (new_store 64)) (PyStr ''ab'') = Inr False"
proof -
  have h1: "''ab'' \<in> fst ` set (data one_record_store)" by code_simp
  have h2: "is_valid (example_config 64) (PyInt 7) ''value'' = Inl (ValueMustBeDict (PyInt 7))"
    by (simp add: is_valid_def)
  have h3: "fst (create (example_config 64) 0 (PyStr ''ab'') (PyInt 7) PyNone (new_store 64))
     = Inl (ValueMustBeDict (PyInt 7))"
    by code_simp
  from duplicate_check_precedes_validation [where k = "''ab''" and s = one_record_store
      and cfg = "example_config 64" and now = 0 and v = "PyInt 7" and ttl = PyNone
      and key = "PyStr ''ab''"]
    duplicate_check_precedes_validation [where k = "''ab''" and s = "new_store 64"
      and cfg = "example_config 64" and now = 0 and v = "PyInt 7" and ttl = PyNone
      and key = "PyStr ''ab''"]
    h1 h2 h3
  show ?thesis by blast
qed

end
